theory Spec2Isabelle
  imports Complex_Main
begin

section \<open>Python values used by the voice recorder\<close>

text \<open>
  The module \<^verbatim>\<open>voice_recorder.py\<close> defines one class, \<^verbatim>\<open>VoiceRecorder\<close>, with three
  attributes, two validation methods and one recording method, followed by three
  module-level statements that use it.  The embedding below follows the source line by
  line.  A Python \<^verbatim>\<open>str\<close> is an Isabelle \<^typ>\<open>string\<close>, one \<^typ>\<open>char\<close> per code point, so the
  model covers the strings whose code points are below 256.
\<close>

subsection \<open>Exceptions\<close>

text \<open>
  The classes of the exceptions that the calls of the module can raise.  The first four are
  subclasses of \<^verbatim>\<open>OSError\<close>; \<^verbatim>\<open>PortAudioError\<close> is raised by \<^verbatim>\<open>sounddevice\<close> and
  \<^verbatim>\<open>LibsndfileError\<close> by \<^verbatim>\<open>soundfile\<close>.  An exception carries its class and the text
  that \<^verbatim>\<open>str(error)\<close> gives.
\<close>

datatype exn_class =
    FileNotFoundError
  | PermissionError
  | FileExistsError
  | NotADirectoryError
  | OSError
  | ValueError
  | OverflowError
  | PortAudioError
  | LibsndfileError

datatype exn = Exn (exn_class: exn_class) (exn_str: string)

subsection \<open>\<^verbatim>\<open>str.lower\<close>\<close>

text \<open>
  \<^verbatim>\<open>str.lower()\<close> on code points below 256: the upper-case letters are A to Z (65 to 90)
  and the Latin-1 capitals 192 to 222 without the multiplication sign 215; each has its
  lower-case letter 32 code points above it.  Every other code point is kept.
\<close>

definition lower_char :: "char \<Rightarrow> char" where
  "lower_char c =
     (let n = (of_char c :: nat)
      in if (65 \<le> n \<and> n \<le> 90) \<or> (192 \<le> n \<and> n \<le> 222 \<and> n \<noteq> 215)
         then char_of (n + 32) else c)"

definition py_lower :: "string \<Rightarrow> string" where
  "py_lower s = map lower_char s"

subsection \<open>\<^verbatim>\<open>str(int)\<close>\<close>

definition digit_char :: "nat \<Rightarrow> char" where
  "digit_char d = char_of (48 + d)"

fun str_nat :: "nat \<Rightarrow> string" where
  "str_nat n = (if n < 10 then [digit_char n] else str_nat (n div 10) @ [digit_char (n mod 10)])"

declare str_nat.simps [simp del]

text \<open>The decimal text of a Python \<^verbatim>\<open>int\<close>, as an f-string renders it.\<close>

definition str_int :: "int \<Rightarrow> string" where
  "str_int i = (if i < 0 then CHR ''-'' # str_nat (nat (- i)) else str_nat (nat i))"

subsection \<open>\<^verbatim>\<open>os.path.join\<close>\<close>

text \<open>
  \<^verbatim>\<open>posixpath.join(a, b)\<close> with one component: \<^verbatim>\<open>b\<close> replaces the path when it starts
  with the separator or when \<^verbatim>\<open>a\<close> is empty; it is appended directly when \<^verbatim>\<open>a\<close> ends
  with the separator, and after a separator otherwise.
\<close>

definition startswith_sep :: "string \<Rightarrow> bool" where
  "startswith_sep b = (case b of [] \<Rightarrow> False | c # _ \<Rightarrow> c = CHR ''/'')"

definition endswith_sep :: "string \<Rightarrow> bool" where
  "endswith_sep a = (case rev a of [] \<Rightarrow> False | c # _ \<Rightarrow> c = CHR ''/'')"

definition path_join :: "string \<Rightarrow> string \<Rightarrow> string" where
  "path_join a b =
     (if startswith_sep b \<or> a = [] then b
      else if endswith_sep a then a @ b
      else a @ ''/'' @ b)"

subsection \<open>Numbers: \<^verbatim>\<open>int\<close> and \<^verbatim>\<open>float\<close>\<close>

text \<open>
  A Python \<^verbatim>\<open>float\<close> is an IEEE 754 binary64 value.  A finite one is a sign, a mantissa
  \<open>m\<close> and an exponent \<open>e\<close>, with value \<open>\<plusminus> m * 2 ^ e\<close>; the doubles are the triples with
  \<open>m < 2 ^ 53\<close>, \<open>- 1074 \<le> e\<close> and \<open>m * 2 ^ e < 2 ^ 1024\<close>.  The sign of a zero is kept.
\<close>

datatype pyfloat = Finite bool nat int | Infinity bool | NaN

datatype pynum = PyInt int | PyFloat pyfloat

text \<open>\<^verbatim>\<open>int.bit_length\<close> of a natural number.\<close>

fun bit_length :: "nat \<Rightarrow> nat" where
  "bit_length n = (if n = 0 then 0 else Suc (bit_length (n div 2)))"

declare bit_length.simps [simp del]

definition is_double :: "pyfloat \<Rightarrow> bool" where
  "is_double x =
     (case x of
        Finite s m e \<Rightarrow> bit_length m \<le> 53 \<and> - 1074 \<le> e \<and> int (bit_length m) + e \<le> 1024
      | _ \<Rightarrow> True)"

text \<open>The value of a finite float, as a rational number.\<close>

definition float_val :: "pyfloat \<Rightarrow> rat" where
  "float_val x =
     (case x of
        Finite s m e \<Rightarrow>
          (if s then - 1 else 1) * of_nat m * (if 0 \<le> e then 2 ^ nat e else 1 / 2 ^ nat (- e))
      | _ \<Rightarrow> 0)"

text \<open>
  \<open>round_half_even M k\<close> is \<open>M / 2 ^ k\<close> rounded to the nearest natural number, a tie
  going to the even one (\<open>1 \<le> k\<close>).
\<close>

definition round_half_even :: "nat \<Rightarrow> nat \<Rightarrow> nat" where
  "round_half_even M k =
     (let q = M div 2 ^ k; r = M mod 2 ^ k; h = 2 ^ (k - 1)
      in if r < h then q else if h < r then q + 1 else if even q then q else q + 1)"

text \<open>
  The IEEE rounding (to nearest, ties to even) of the exact value \<open>\<plusminus> M * 2 ^ E\<close>: the
  mantissa keeps 53 bits, fewer below the smallest normal exponent, and a result of
  magnitude \<open>2 ^ 1024\<close> or more is an infinity.
\<close>

definition float_round :: "bool \<Rightarrow> nat \<Rightarrow> int \<Rightarrow> pyfloat" where
  "float_round s M E =
     (let k = max (int (bit_length M) - 53) (- 1074 - E)
      in if k \<le> 0
         then (if 1024 < int (bit_length M) + E then Infinity s else Finite s M E)
         else (let m = round_half_even M (nat k); e = E + k
               in if 1024 < int (bit_length m) + e then Infinity s else Finite s m e))"

fun float_mul :: "pyfloat \<Rightarrow> pyfloat \<Rightarrow> pyfloat" where
  "float_mul NaN y = NaN"
| "float_mul x NaN = NaN"
| "float_mul (Infinity s) (Infinity t) = Infinity (s \<noteq> t)"
| "float_mul (Infinity s) (Finite t n f) = (if n = 0 then NaN else Infinity (s \<noteq> t))"
| "float_mul (Finite s m e) (Infinity t) = (if m = 0 then NaN else Infinity (s \<noteq> t))"
| "float_mul (Finite s m e) (Finite t n f) = float_round (s \<noteq> t) (m * n) (e + f)"

text \<open>The conversion of an \<^verbatim>\<open>int\<close> operand to \<^verbatim>\<open>float\<close>, rounded like any other value.\<close>

definition float_of_int :: "int \<Rightarrow> pyfloat" where
  "float_of_int n = float_round (n < 0) (nat \<bar>n\<bar>) 0"

text \<open>
  \<^verbatim>\<open>x * n\<close> for an \<^verbatim>\<open>int\<close> right operand \<open>n\<close>: exact on an \<^verbatim>\<open>int\<close>; on a \<^verbatim>\<open>float\<close> the
  operand \<open>n\<close> is converted first, which raises when it is too large, and the product
  is rounded.
\<close>

fun py_mul :: "pynum \<Rightarrow> int \<Rightarrow> exn + pynum" where
  "py_mul (PyInt i) n = Inr (PyInt (i * n))"
| "py_mul (PyFloat x) n =
     (case float_of_int n of
        Infinity s \<Rightarrow> Inl (Exn OverflowError ''int too large to convert to float'')
      | y \<Rightarrow> Inr (PyFloat (float_mul x y)))"

text \<open>
  \<^verbatim>\<open>int(x)\<close>: the identity on an \<^verbatim>\<open>int\<close>; a finite \<^verbatim>\<open>float\<close> loses its fractional part;
  an infinity and a NaN raise.
\<close>

fun py_int :: "pynum \<Rightarrow> exn + int" where
  "py_int (PyInt i) = Inr i"
| "py_int (PyFloat (Finite s m e)) =
     Inr (let mag = (if 0 \<le> e then m * 2 ^ nat e else m div 2 ^ nat (- e))
          in if s then - int mag else int mag)"
| "py_int (PyFloat (Infinity s)) =
     Inl (Exn OverflowError ''cannot convert float infinity to integer'')"
| "py_int (PyFloat NaN) = Inl (Exn ValueError ''cannot convert float NaN to integer'')"

text \<open>Truncation toward zero of a rational number.\<close>

definition rat_trunc :: "rat \<Rightarrow> int" where
  "rat_trunc x = (if 0 \<le> x then \<lfloor>x\<rfloor> else \<lceil>x\<rceil>)"

section \<open>The world outside the module\<close>

text \<open>
  The module calls \<^verbatim>\<open>os.makedirs\<close>, \<^verbatim>\<open>sd.rec\<close>, \<^verbatim>\<open>sd.wait\<close>, \<^verbatim>\<open>time.time\<close>, \<^verbatim>\<open>sf.write\<close> and
  \<^verbatim>\<open>print\<close>.  Their effects are kept in a \<open>world\<close>: the wall clock (the value that
  \<^verbatim>\<open>time.time()\<close> returns, a finite float, hence a rational number of seconds), the
  directories known to exist, the audio files written, the lines printed and the
  recordings requested.  Whether a call fails is not decided by the module: a
  \<open>platform\<close> gives, for each call, the exception it raises, if any, and the time that
  \<^verbatim>\<open>sd.wait\<close> takes.
\<close>

record rec_request =
  req_frames :: int
  req_samplerate :: int
  req_channels :: int
  req_device :: "nat option"

record recording =
  rec_frames :: nat
  rec_channels :: nat

record audio_file =
  af_data :: recording
  af_samplerate :: int

record world =
  clock :: rat
  dirs :: "string set"
  files :: "string \<rightharpoonup> audio_file"
  stdout :: "string list"
  rec_calls :: "rec_request list"

record platform =
  makedirs_error :: "string \<Rightarrow> exn option"
  rec_error :: "rec_request \<Rightarrow> exn option"
  wait_error :: "exn option"
  wait_elapsed :: rat
  write_error :: "string \<Rightarrow> exn option"

text \<open>\<^verbatim>\<open>print(line)\<close>.\<close>

definition py_print :: "string \<Rightarrow> world \<Rightarrow> world" where
  "py_print line w = w\<lparr>stdout := stdout w @ [line]\<rparr>"

text \<open>\<^verbatim>\<open>os.makedirs(p, exist_ok=True)\<close>: the directory exists when the call returns.\<close>

definition os_makedirs :: "platform \<Rightarrow> string \<Rightarrow> world \<Rightarrow> (exn + unit) \<times> world" where
  "os_makedirs pl p w =
     (case makedirs_error pl p of
        Some e \<Rightarrow> (Inl e, w)
      | None \<Rightarrow> (Inr (), w\<lparr>dirs := insert p (dirs w)\<rparr>))"

text \<open>
  \<^verbatim>\<open>sd.rec(frames, samplerate=..., channels=...)\<close>, with no \<^verbatim>\<open>device\<close> argument: the
  recording is taken from the default input device.  The call allocates an array of
  \<open>frames\<close> rows and \<open>channels\<close> columns, which raises \<^verbatim>\<open>ValueError\<close> on a negative
  number of rows, and starts the stream, which the platform may refuse.
\<close>

definition sd_rec :: "platform \<Rightarrow> int \<Rightarrow> int \<Rightarrow> int \<Rightarrow> world \<Rightarrow> (exn + recording) \<times> world" where
  "sd_rec pl frames samplerate channels w =
     (let rq = \<lparr>req_frames = frames, req_samplerate = samplerate,
                req_channels = channels, req_device = None\<rparr>;
          w1 = w\<lparr>rec_calls := rec_calls w @ [rq]\<rparr>
      in if frames < 0 then (Inl (Exn ValueError ''negative dimensions are not allowed''), w1)
         else (case rec_error pl rq of
                 Some e \<Rightarrow> (Inl e, w1)
               | None \<Rightarrow> (Inr \<lparr>rec_frames = nat frames, rec_channels = nat channels\<rparr>, w1)))"

text \<open>\<^verbatim>\<open>sd.wait()\<close>: returns when the recording is finished; the clock has moved on.\<close>

definition sd_wait :: "platform \<Rightarrow> world \<Rightarrow> (exn + unit) \<times> world" where
  "sd_wait pl w =
     (let w1 = w\<lparr>clock := clock w + wait_elapsed pl\<rparr>
      in case wait_error pl of Some e \<Rightarrow> (Inl e, w1) | None \<Rightarrow> (Inr (), w1))"

text \<open>\<^verbatim>\<open>time.time()\<close>: the reading of the clock.\<close>

definition time_time :: "world \<Rightarrow> rat" where
  "time_time w = clock w"

text \<open>\<^verbatim>\<open>sf.write(path, data, samplerate)\<close>: the file at \<open>path\<close> holds the data.\<close>

definition sf_write :: "platform \<Rightarrow> string \<Rightarrow> recording \<Rightarrow> int \<Rightarrow> world \<Rightarrow> (exn + unit) \<times> world" where
  "sf_write pl path data samplerate w =
     (case write_error pl path of
        Some e \<Rightarrow> (Inl e, w)
      | None \<Rightarrow>
          (Inr (), w\<lparr>files := (files w)(path \<mapsto> \<lparr>af_data = data, af_samplerate = samplerate\<rparr>)\<rparr>))"

section \<open>The class \<^verbatim>\<open>VoiceRecorder\<close>\<close>

record recorder =
  duration :: pynum
  output_path :: string
  file_format :: string

definition SUPPORTED_FORMATS :: "string set" where
  "SUPPORTED_FORMATS = {''wav'', ''mp3'', ''flac''}"

definition DEFAULT_FORMAT :: string where
  "DEFAULT_FORMAT = ''wav''"

definition SAMPLE_RATE :: int where
  "SAMPLE_RATE = 44100"

text \<open>
  \<^verbatim>\<open>validate_path\<close>: the handler of the \<^verbatim>\<open>try\<close> names two classes, \<^verbatim>\<open>FileNotFoundError\<close>
  and \<^verbatim>\<open>PermissionError\<close>; it prints the error and goes on.  Any other exception leaves
  the method.
\<close>

definition validate_path :: "platform \<Rightarrow> recorder \<Rightarrow> world \<Rightarrow> (exn + unit) \<times> recorder \<times> world" where
  "validate_path pl self w =
     (case os_makedirs pl (output_path self) w of
        (Inr u, w1) \<Rightarrow> (Inr (), self, w1)
      | (Inl error, w1) \<Rightarrow>
          if exn_class error \<in> {FileNotFoundError, PermissionError}
          then (Inr (), self,
                py_print (''Error occurred while creating the directory: '' @ exn_str error) w1)
          else (Inl error, self, w1))"

definition validate_format :: "recorder \<Rightarrow> world \<Rightarrow> recorder \<times> world" where
  "validate_format self w =
     (if file_format self \<notin> SUPPORTED_FORMATS
      then (let w1 = py_print
                  ''Audio file format is not supported. Accepted formats: WAV, MP3, and FLAC.'' w;
                w2 = py_print ''Using default value: WAV'' w1
            in (self\<lparr>file_format := DEFAULT_FORMAT\<rparr>, w2))
      else (self, w))"

text \<open>
  \<^verbatim>\<open>__init__(self, duration, output_path, file_format)\<close>.  A constructor that raises gives
  the caller no object.
\<close>

definition init :: "platform \<Rightarrow> pynum \<Rightarrow> string \<Rightarrow> string \<Rightarrow> world \<Rightarrow> (exn + recorder) \<times> world" where
  "init pl d p f w =
     (let self = \<lparr>duration = d, output_path = p, file_format = py_lower f\<rparr>
      in case validate_path pl self w of
           (Inl error, self1, w1) \<Rightarrow> (Inl error, w1)
         | (Inr u, self1, w1) \<Rightarrow>
             (case validate_format self1 w1 of (self2, w2) \<Rightarrow> (Inr self2, w2)))"

text \<open>
  The first argument of \<^verbatim>\<open>sd.rec\<close> in \<^verbatim>\<open>start_record\<close>:
  \<^verbatim>\<open>int(self.duration * self.SAMPLE_RATE)\<close>.
\<close>

definition rec_frames_arg :: "recorder \<Rightarrow> exn + int" where
  "rec_frames_arg self =
     (case py_mul (duration self) SAMPLE_RATE of
        Inl error \<Rightarrow> Inl error
      | Inr product \<Rightarrow> py_int product)"

text \<open>
  \<^verbatim>\<open>start_record(self)\<close>.  The result has the value returned or the exception raised,
  the recorder and the world after the call.
\<close>

definition start_record :: "platform \<Rightarrow> recorder \<Rightarrow> world \<Rightarrow> (exn + string) \<times> recorder \<times> world" where
  "start_record pl self w =
     (let w1 = py_print ''Recording...'' w
      in case rec_frames_arg self of
           Inl error \<Rightarrow> (Inl error, self, w1)
         | Inr frames \<Rightarrow>
        (case sd_rec pl frames SAMPLE_RATE 1 w1 of
           (Inl error, w2) \<Rightarrow> (Inl error, self, w2)
         | (Inr recording, w2) \<Rightarrow>
        (case sd_wait pl w2 of
           (Inl error, w3) \<Rightarrow> (Inl error, self, w3)
         | (Inr u, w3) \<Rightarrow>
        (let out = path_join (output_path self)
                     (str_int (rat_trunc (time_time w3)) @ ''.'' @ file_format self)
         in case sf_write pl out recording SAMPLE_RATE w3 of
              (Inl error, w4) \<Rightarrow> (Inl error, self, w4)
            | (Inr u, w4) \<Rightarrow> (Inr out, self, w4)))))"

section \<open>The statements at the end of the module\<close>

text \<open>
  The module ends by building a recorder, recording once and printing the path.  The
  result holds the two module variables \<^verbatim>\<open>recorder\<close> and \<^verbatim>\<open>recording_path\<close>.
\<close>

definition main :: "platform \<Rightarrow> world \<Rightarrow> (exn + recorder \<times> string) \<times> world" where
  "main pl w =
     (case init pl (PyInt 5) ''./recordings/'' ''wavf'' w of
        (Inl error, w1) \<Rightarrow> (Inl error, w1)
      | (Inr recorder, w1) \<Rightarrow>
     (case start_record pl recorder w1 of
        (Inl error, recorder1, w2) \<Rightarrow> (Inl error, w2)
      | (Inr recording_path, recorder1, w2) \<Rightarrow>
          (Inr (recorder1, recording_path),
           py_print (''Recording saved at: '' @ recording_path) w2)))"

section \<open>Sample platforms and worlds\<close>

text \<open>
  Concrete inputs on which the theorems below are run: a platform where no call fails and
  the recording takes five seconds, one where the output path is taken by a regular
  file, one where no directory may be created, and a world at a fixed time with nothing
  in it.
\<close>

definition quiet_platform :: platform where
  "quiet_platform =
     \<lparr>makedirs_error = (\<lambda>p. None), rec_error = (\<lambda>rq. None), wait_error = None,
      wait_elapsed = 5, write_error = (\<lambda>p. None)\<rparr>"

definition occupied_platform :: platform where
  "occupied_platform =
     quiet_platform\<lparr>makedirs_error :=
       (\<lambda>p. if p = ''notes.txt'' then Some (Exn FileExistsError ''[Errno 17] File exists'')
            else None)\<rparr>"

definition locked_platform :: platform where
  "locked_platform =
     quiet_platform\<lparr>makedirs_error :=
       (\<lambda>p. Some (Exn PermissionError ''[Errno 13] Permission denied''))\<rparr>"

definition studio_world :: world where
  "studio_world =
     \<lparr>clock = 1700000000 + 1 / 4, dirs = {}, files = Map.empty, stdout = [], rec_calls = []\<rparr>"

text \<open>
  Two durations given as floats: \<open>2 ^ 1023\<close>, a finite double whose product with the
  sample rate is not, and the double nearest to \<open>0.29\<close>.
\<close>

definition huge_duration :: pyfloat where
  "huge_duration = Finite False 4503599627370496 971"

definition short_duration :: pyfloat where
  "short_duration = Finite False 5224175567749775 (- 54)"

section \<open>Facts about the operations\<close>

subsection \<open>Strings and numbers\<close>

lemma digit_char_simps:
  "digit_char 0 = CHR ''0''" "digit_char 1 = CHR ''1''" "digit_char 2 = CHR ''2''"
  "digit_char 3 = CHR ''3''" "digit_char 4 = CHR ''4''" "digit_char 5 = CHR ''5''"
  "digit_char 6 = CHR ''6''" "digit_char 7 = CHR ''7''" "digit_char 8 = CHR ''8''"
  "digit_char 9 = CHR ''9''" "digit_char (Suc 0) = CHR ''1''"
  by (simp_all add: digit_char_def char_of_def bit_Suc_0_iff)

lemma lower_char_fixed: "c \<in> set ''wavmp3flc'' \<Longrightarrow> lower_char c = c"
  by (auto simp add: lower_char_def)

lemma py_lower_supported: "f \<in> SUPPORTED_FORMATS \<Longrightarrow> py_lower f = f"
  by (auto simp add: SUPPORTED_FORMATS_def py_lower_def lower_char_fixed)

lemma default_supported: "DEFAULT_FORMAT \<in> SUPPORTED_FORMATS"
  by (simp add: DEFAULT_FORMAT_def SUPPORTED_FORMATS_def)

lemma py_lower_OGG: "py_lower ''OGG'' = ''ogg''"
  by code_simp

lemma py_lower_ogg: "py_lower ''ogg'' = ''ogg''"
  by code_simp

lemma py_lower_wavf: "py_lower ''wavf'' = ''wavf''"
  by (simp add: py_lower_def lower_char_fixed)

lemma py_lower_FLAC: "py_lower ''FLAC'' = ''flac''"
  by code_simp

lemma rat_trunc_mono:
  assumes "x \<le> y"
  shows "rat_trunc x \<le> rat_trunc y"
proof (cases "0 \<le> x")
  case True
  with assms show ?thesis by (simp add: rat_trunc_def floor_mono)
next
  case False
  show ?thesis
  proof (cases "0 \<le> y")
    case True
    from False have "\<lceil>x\<rceil> \<le> 0" by (simp add: ceiling_le_zero)
    moreover from True have "0 \<le> \<lfloor>y\<rfloor>" by simp
    moreover from False True have "rat_trunc x = \<lceil>x\<rceil>" and "rat_trunc y = \<lfloor>y\<rfloor>"
      by (simp_all add: rat_trunc_def)
    ultimately show ?thesis by linarith
  next
    case y: False
    with False assms show ?thesis by (simp add: rat_trunc_def ceiling_mono)
  qed
qed

lemma rat_trunc_of_int: "rat_trunc (of_int i) = i"
  by (simp add: rat_trunc_def)

lemma rat_trunc_minus: "rat_trunc (- x) = - rat_trunc x"
proof -
  consider "x < 0" | "x = 0" | "0 < x" by linarith
  then show ?thesis
  proof cases
    case 1
    then show ?thesis by (simp add: rat_trunc_def ceiling_def)
  next
    case 2
    then show ?thesis by (simp add: rat_trunc_def)
  next
    case 3
    then have "\<not> 0 \<le> - x" by simp
    with 3 show ?thesis by (simp add: rat_trunc_def ceiling_def)
  qed
qed

lemma rat_trunc_nat_div: "rat_trunc (of_nat m / 2 ^ k) = int (m div 2 ^ k)"
proof -
  have "\<lfloor>(of_nat m :: rat) / of_nat (2 ^ k)\<rfloor> = int (m div 2 ^ k)"
    by (rule floor_divide_of_nat_eq)
  then show ?thesis by (simp add: rat_trunc_def)
qed

lemma py_int_float_trunc:
  "py_int (PyFloat (Finite s m e)) = Inr (rat_trunc (float_val (Finite s m e)))"
proof -
  let ?mag = "(of_nat m :: rat) * (if 0 \<le> e then 2 ^ nat e else 1 / 2 ^ nat (- e))"
  have mag: "rat_trunc ?mag = int (if 0 \<le> e then m * 2 ^ nat e else m div 2 ^ nat (- e))"
  proof (cases "0 \<le> e")
    case True
    have "(of_nat m :: rat) * 2 ^ nat e = of_int (int (m * 2 ^ nat e))" by simp
    with True show ?thesis by (simp only: rat_trunc_of_int if_True)
  next
    case False
    then show ?thesis using rat_trunc_nat_div [of m "nat (- e)"] by simp
  qed
  have "float_val (Finite s m e) = (if s then - ?mag else ?mag)"
    by (simp add: float_val_def)
  then have "rat_trunc (float_val (Finite s m e)) = (if s then - rat_trunc ?mag else rat_trunc ?mag)"
    by (simp add: rat_trunc_minus)
  with mag show ?thesis by (simp add: Let_def)
qed

lemma bit_length_44100: "bit_length 44100 = 16"
  by (simp add: bit_length.simps)

lemma float_of_int_44100: "float_of_int 44100 = Finite False 44100 0"
  by (simp add: float_of_int_def float_round_def bit_length_44100)

lemma huge_duration_double: "is_double huge_duration"
  by (simp add: is_double_def huge_duration_def bit_length.simps)

lemma huge_duration_product: "float_mul huge_duration (Finite False 44100 0) = Infinity False"
  by (simp add: huge_duration_def float_round_def round_half_even_def bit_length.simps)

lemma short_duration_double: "is_double short_duration"
  by (simp add: is_double_def short_duration_def bit_length.simps)

lemma short_duration_product:
  "float_mul short_duration (Finite False 44100 0) = Finite False 7030827103813632 (- 39)"
  by (simp add: short_duration_def float_round_def round_half_even_def bit_length.simps)

lemma digit_char_not_sep: "d < 10 \<Longrightarrow> digit_char d \<noteq> CHR ''/''"
proof
  assume d: "d < 10" and "digit_char d = CHR ''/''"
  then have "(of_char (char_of (48 + d)) :: nat) = of_char (CHR ''/'')"
    by (simp add: digit_char_def)
  with d show False by simp
qed

lemma str_nat_head: "\<exists>d rest. d < 10 \<and> str_nat n = digit_char d # rest"
proof (induction n rule: str_nat.induct)
  case (1 n)
  show ?case
  proof (cases "n < 10")
    case True
    then show ?thesis by (subst str_nat.simps) auto
  next
    case False
    with 1 obtain d rest where "d < 10" and "str_nat (n div 10) = digit_char d # rest"
      by auto
    with False show ?thesis by (subst str_nat.simps) auto
  qed
qed

lemma str_int_not_sep: "\<not> startswith_sep (str_int t @ s)"
proof (cases "t < 0")
  case True
  then show ?thesis by (simp add: str_int_def startswith_sep_def)
next
  case False
  obtain d rest where "d < 10" and "str_nat (nat t) = digit_char d # rest"
    using str_nat_head by blast
  with False show ?thesis
    by (simp add: str_int_def startswith_sep_def digit_char_not_sep)
qed

lemma path_join_recordings: "path_join ''./recordings/'' (str_int t @ s) = ''./recordings/'' @ str_int t @ s"
  by (simp add: path_join_def str_int_not_sep endswith_sep_def)

lemma str_int_studio: "str_int (rat_trunc (clock studio_world + 5)) = ''1700000005''"
proof -
  have "rat_trunc (clock studio_world + 5) = 1700000005"
    by (simp add: studio_world_def rat_trunc_def floor_eq_iff)
  then show ?thesis
    by (simp add: str_int_def str_nat.simps digit_char_simps)
qed

lemma triple_eq: "x = (fst x, fst (snd x), snd (snd x))"
  by simp

subsection \<open>The constructor\<close>

lemma validate_path_self: "fst (snd (validate_path pl self w)) = self"
  by (simp add: validate_path_def split: prod.splits sum.splits)

lemma validate_path_raises:
  "fst (validate_path pl self w) = Inl e \<longleftrightarrow>
     makedirs_error pl (output_path self) = Some e \<and> exn_class e \<noteq> FileNotFoundError
       \<and> exn_class e \<noteq> PermissionError"
  by (auto simp add: validate_path_def os_makedirs_def split: option.splits)

lemma validate_format_format:
  "file_format (fst (validate_format self w)) =
     (if file_format self \<in> SUPPORTED_FORMATS then file_format self else DEFAULT_FORMAT)"
  by (simp add: validate_format_def Let_def)

lemma validate_format_rest:
  "duration (fst (validate_format self w)) = duration self"
  "output_path (fst (validate_format self w)) = output_path self"
  by (simp_all add: validate_format_def Let_def)

lemma validate_format_unsupported:
  "file_format self \<notin> SUPPORTED_FORMATS \<Longrightarrow>
     fst (validate_format self w) = self\<lparr>file_format := DEFAULT_FORMAT\<rparr>"
  by (simp add: validate_format_def Let_def)

lemma init_Inr:
  assumes "init pl d p f w = (Inr self, w')"
  shows "self = fst (validate_format \<lparr>duration = d, output_path = p, file_format = py_lower f\<rparr>
                  (snd (snd (validate_path pl
                     \<lparr>duration = d, output_path = p, file_format = py_lower f\<rparr> w))))"
proof -
  let ?s = "\<lparr>duration = d, output_path = p, file_format = py_lower f\<rparr>"
  obtain r s1 w1 where vp: "validate_path pl ?s w = (r, s1, w1)"
    by (cases "validate_path pl ?s w") auto
  from validate_path_self [of pl ?s w] vp have s1: "s1 = ?s" by simp
  from assms vp s1 show ?thesis
    by (cases r) (auto simp add: init_def Let_def split: prod.splits)
qed

lemma init_Inl:
  assumes "init pl d p f w = (Inl e, w')"
  shows "fst (validate_path pl \<lparr>duration = d, output_path = p, file_format = py_lower f\<rparr> w) = Inl e"
  using assms by (auto simp add: init_def Let_def split: prod.splits sum.splits)

lemma init_quiet:
  "init quiet_platform d p f w =
     (case validate_format \<lparr>duration = d, output_path = p, file_format = py_lower f\<rparr>
             (w\<lparr>dirs := insert p (dirs w)\<rparr>) of (self, w') \<Rightarrow> (Inr self, w'))"
  by (simp add: init_def validate_path_def os_makedirs_def quiet_platform_def)

lemma init_stdout:
  assumes "init pl d p f w = (Inr self, w')"
  shows "\<exists>pre. stdout w' = stdout w @ pre @
           (if py_lower f \<in> SUPPORTED_FORMATS then []
            else [''Audio file format is not supported. Accepted formats: WAV, MP3, and FLAC.'',
                  ''Using default value: WAV''])"
  using assms
  by (auto simp add: init_def validate_path_def os_makedirs_def validate_format_def py_print_def
      Let_def split: option.splits if_splits)

lemma init_duration:
  "init pl d' p f w =
     (case init pl d p f w of
        (Inl error, w') \<Rightarrow> (Inl error, w')
      | (Inr self, w') \<Rightarrow> (Inr (self\<lparr>duration := d'\<rparr>), w'))"
  by (simp add: init_def validate_path_def os_makedirs_def validate_format_def Let_def
      split: option.splits)

lemma init_stores_duration:
  assumes "init pl d p f w = (Inr self, w')"
  shows "duration self = d"
  using init_Inr [OF assms] by (simp add: validate_format_rest)

subsection \<open>Recording\<close>

lemma rec_frames_arg_int: "duration self = PyInt D \<Longrightarrow> rec_frames_arg self = Inr (D * 44100)"
  by (simp add: rec_frames_arg_def SAMPLE_RATE_def)

lemma rec_frames_arg_float:
  "duration self = PyFloat x \<Longrightarrow>
     rec_frames_arg self = py_int (PyFloat (float_mul x (Finite False 44100 0)))"
  by (simp add: rec_frames_arg_def SAMPLE_RATE_def float_of_int_44100)

lemma start_record_self: "fst (snd (start_record pl self w)) = self"
  by (simp add: start_record_def Let_def split: sum.splits prod.splits)

lemma start_record_rec_calls:
  "rec_calls (snd (snd (start_record pl self w))) =
     (case rec_frames_arg self of
        Inl error \<Rightarrow> rec_calls w
      | Inr frames \<Rightarrow>
          rec_calls w @ [\<lparr>req_frames = frames, req_samplerate = SAMPLE_RATE,
                          req_channels = 1, req_device = None\<rparr>])"
  by (simp add: start_record_def Let_def sd_rec_def sd_wait_def sf_write_def py_print_def
      split: sum.splits option.splits)

lemma start_record_stdout:
  "stdout (snd (snd (start_record pl self w))) = stdout w @ [''Recording...'']"
  by (simp add: start_record_def Let_def sd_rec_def sd_wait_def sf_write_def py_print_def
      split: sum.splits option.splits)

lemma start_record_Inr:
  assumes "start_record pl self w = (Inr path, self', w')"
  shows "\<exists>frames. rec_frames_arg self = Inr frames \<and> 0 \<le> frames
     \<and> path = path_join (output_path self)
           (str_int (rat_trunc (clock w + wait_elapsed pl)) @ ''.'' @ file_format self)
     \<and> files w' path =
           Some \<lparr>af_data = \<lparr>rec_frames = nat frames, rec_channels = 1\<rparr>,
                 af_samplerate = SAMPLE_RATE\<rparr>
     \<and> clock w' = clock w + wait_elapsed pl"
  using assms
  by (auto simp add: start_record_def Let_def sd_rec_def sd_wait_def sf_write_def py_print_def
      time_time_def split: sum.splits option.splits if_splits)

lemma start_record_quiet:
  assumes "rec_frames_arg self = Inr frames" and "0 \<le> frames"
  shows "start_record quiet_platform self w =
     (let out = path_join (output_path self)
                  (str_int (rat_trunc (clock w + 5)) @ ''.'' @ file_format self)
      in (Inr out, self,
          w\<lparr>stdout := stdout w @ [''Recording...''],
            rec_calls := rec_calls w @ [\<lparr>req_frames = frames, req_samplerate = SAMPLE_RATE,
                                          req_channels = 1, req_device = None\<rparr>],
            clock := clock w + 5,
            files := (files w)(out \<mapsto> \<lparr>af_data = \<lparr>rec_frames = nat frames, rec_channels = 1\<rparr>,
                                         af_samplerate = SAMPLE_RATE\<rparr>)\<rparr>))"
  using assms
  by (simp add: start_record_def Let_def sd_rec_def sd_wait_def sf_write_def py_print_def
      time_time_def quiet_platform_def)

lemma start_record_raises_early:
  "rec_frames_arg self = Inl error \<Longrightarrow>
     start_record pl self w = (Inl error, self, py_print ''Recording...'' w)"
  by (simp add: start_record_def Let_def)

text \<open>A call that returns has written one file, at the path returned; a call that raises, none.\<close>

lemma start_record_files:
  "start_record pl self w = (result, self', w') \<Longrightarrow>
     (case result of
        Inr path \<Rightarrow> \<exists>file. files w' = (files w)(path \<mapsto> file)
      | Inl error \<Rightarrow> files w' = files w)"
  by (auto simp add: start_record_def Let_def sd_rec_def sd_wait_def sf_write_def py_print_def
      split: sum.splits option.splits if_splits)

section \<open>The claims\<close>

subsection \<open>Unsupported formats\<close>

text \<open>
  Claim C1, as amended.  For every format string whose lower-cased form is not one of
  \<^verbatim>\<open>wav\<close>, \<^verbatim>\<open>mp3\<close>, \<^verbatim>\<open>flac\<close>, the constructor never fails because of the format: when
  \<^verbatim>\<open>os.makedirs\<close> returns, or raises a \<^verbatim>\<open>FileNotFoundError\<close> or a \<^verbatim>\<open>PermissionError\<close>, the
  constructor returns a recorder whose \<^verbatim>\<open>file_format\<close> is the default \<^verbatim>\<open>wav\<close>; it raises
  only when \<^verbatim>\<open>os.makedirs\<close> raises an exception of another class, and raises that one.
\<close>

theorem init_unsupported_format:
  assumes "py_lower f \<notin> SUPPORTED_FORMATS"
  shows "case makedirs_error pl p of
           None \<Rightarrow>
             (\<exists>w'. init pl d p f w =
                (Inr \<lparr>duration = d, output_path = p, file_format = ''wav''\<rparr>, w'))
         | Some error \<Rightarrow>
             if exn_class error \<in> {FileNotFoundError, PermissionError}
             then (\<exists>w'. init pl d p f w =
                     (Inr \<lparr>duration = d, output_path = p, file_format = ''wav''\<rparr>, w'))
             else init pl d p f w = (Inl error, w)"
  using assms
  by (simp add: init_def validate_path_def os_makedirs_def validate_format_def py_print_def
      Let_def DEFAULT_FORMAT_def split: option.splits)

text \<open>
  The claim as written says that the constructor succeeds for every unsupported format.
  With the format \<^verbatim>\<open>ogg\<close> and an output path that is an existing regular file,
  \<^verbatim>\<open>os.makedirs\<close> raises \<^verbatim>\<open>FileExistsError\<close> and the constructor raises it: no recorder is
  built.
\<close>

theorem init_unsupported_format_counterexample:
  "py_lower ''ogg'' \<notin> SUPPORTED_FORMATS
   \<and> init occupied_platform (PyInt 5) ''notes.txt'' ''ogg'' studio_world
       = (Inl (Exn FileExistsError ''[Errno 17] File exists''), studio_world)"
  by (simp add: py_lower_ogg SUPPORTED_FORMATS_def init_def validate_path_def os_makedirs_def
      occupied_platform_def quiet_platform_def)

theorem init_unsupported_format_witness:
  "py_lower ''OGG'' \<notin> SUPPORTED_FORMATS
   \<and> makedirs_error quiet_platform ''./audio/'' = None
   \<and> fst (init quiet_platform (PyInt 5) ''./audio/'' ''OGG'' studio_world)
       = Inr \<lparr>duration = PyInt 5, output_path = ''./audio/'', file_format = ''wav''\<rparr>
   \<and> makedirs_error locked_platform ''/root/audio/''
       = Some (Exn PermissionError ''[Errno 13] Permission denied'')
   \<and> fst (init locked_platform (PyInt 5) ''/root/audio/'' ''OGG'' studio_world)
       = Inr \<lparr>duration = PyInt 5, output_path = ''/root/audio/'', file_format = ''wav''\<rparr>"
proof -
  have h: "py_lower ''OGG'' \<notin> SUPPORTED_FORMATS"
    by (simp add: py_lower_OGG SUPPORTED_FORMATS_def)
  have n: "makedirs_error quiet_platform ''./audio/'' = None"
    by (simp add: quiet_platform_def)
  have e: "makedirs_error locked_platform ''/root/audio/''
      = Some (Exn PermissionError ''[Errno 13] Permission denied'')"
    by (simp add: locked_platform_def)
  from init_unsupported_format [OF h, where pl = quiet_platform and d = "PyInt 5"
      and p = "''./audio/''" and w = studio_world]
  have 1: "fst (init quiet_platform (PyInt 5) ''./audio/'' ''OGG'' studio_world)
       = Inr \<lparr>duration = PyInt 5, output_path = ''./audio/'', file_format = ''wav''\<rparr>"
    by (auto simp add: n)
  from init_unsupported_format [OF h, where pl = locked_platform and d = "PyInt 5"
      and p = "''/root/audio/''" and w = studio_world]
  have 2: "fst (init locked_platform (PyInt 5) ''/root/audio/'' ''OGG'' studio_world)
       = Inr \<lparr>duration = PyInt 5, output_path = ''/root/audio/'', file_format = ''wav''\<rparr>"
    by (auto simp add: e)
  from h n e 1 2 show ?thesis by simp
qed

subsection \<open>Errors of the directory creation\<close>

text \<open>
  Claim C2, as amended.  A \<^verbatim>\<open>FileNotFoundError\<close> or a \<^verbatim>\<open>PermissionError\<close> raised while the
  directory is created is caught and printed, and the constructor returns a recorder; when
  the directory can be created it exists after the constructor.  An exception of any other
  class leaves the constructor.
\<close>

theorem init_directory_errors:
  "case makedirs_error pl p of
     None \<Rightarrow> (\<exists>self w'. init pl d p f w = (Inr self, w') \<and> p \<in> dirs w' \<and> stdout w' =
        stdout (snd (validate_format \<lparr>duration = d, output_path = p, file_format = py_lower f\<rparr> w)))
   | Some error \<Rightarrow>
       if exn_class error \<in> {FileNotFoundError, PermissionError}
       then (\<exists>self w'. init pl d p f w = (Inr self, w') \<and> dirs w' = dirs w
              \<and> stdout w' = stdout (snd (validate_format
                    \<lparr>duration = d, output_path = p, file_format = py_lower f\<rparr>
                    (py_print (''Error occurred while creating the directory: '' @ exn_str error) w))))
       else init pl d p f w = (Inl error, w)"
  by (simp add: init_def validate_path_def os_makedirs_def validate_format_def py_print_def Let_def
      split: option.splits)

text \<open>
  The claim as written says that every error of the directory creation is caught.  When
  the output path is an existing regular file, \<^verbatim>\<open>os.makedirs\<close> raises \<^verbatim>\<open>FileExistsError\<close>,
  which the handler does not name: the constructor raises it.
\<close>

theorem init_directory_errors_counterexample:
  "makedirs_error occupied_platform ''notes.txt''
     = Some (Exn FileExistsError ''[Errno 17] File exists'')
   \<and> init occupied_platform (PyInt 5) ''notes.txt'' ''wav'' studio_world
     = (Inl (Exn FileExistsError ''[Errno 17] File exists''), studio_world)"
  by (simp add: init_def validate_path_def os_makedirs_def occupied_platform_def quiet_platform_def)

theorem init_directory_errors_witness:
  "makedirs_error locked_platform ''/root/audio/'' = Some (Exn PermissionError ''[Errno 13] Permission denied'')
   \<and> fst (init locked_platform (PyInt 5) ''/root/audio/'' ''wav'' studio_world)
       = Inr \<lparr>duration = PyInt 5, output_path = ''/root/audio/'', file_format = ''wav''\<rparr>
   \<and> stdout (snd (init locked_platform (PyInt 5) ''/root/audio/'' ''wav'' studio_world))
       = [''Error occurred while creating the directory: [Errno 13] Permission denied'']
   \<and> makedirs_error quiet_platform ''./audio/'' = None
   \<and> ''./audio/'' \<in> dirs (snd (init quiet_platform (PyInt 5) ''./audio/'' ''wav'' studio_world))"
proof -
  have low: "py_lower ''wav'' = ''wav''"
    by (simp add: py_lower_supported SUPPORTED_FORMATS_def)
  have e: "makedirs_error locked_platform ''/root/audio/''
      = Some (Exn PermissionError ''[Errno 13] Permission denied'')"
    by (simp add: locked_platform_def)
  have n: "makedirs_error quiet_platform ''./audio/'' = None"
    by (simp add: quiet_platform_def)
  from init_directory_errors [where pl = locked_platform and p = "''/root/audio/''"
      and d = "PyInt 5" and f = "''wav''" and w = studio_world]
  have 1: "fst (init locked_platform (PyInt 5) ''/root/audio/'' ''wav'' studio_world)
       = Inr \<lparr>duration = PyInt 5, output_path = ''/root/audio/'', file_format = ''wav''\<rparr>
     \<and> stdout (snd (init locked_platform (PyInt 5) ''/root/audio/'' ''wav'' studio_world))
       = [''Error occurred while creating the directory: [Errno 13] Permission denied'']"
    by (auto simp add: e low init_def validate_path_def os_makedirs_def validate_format_def
        py_print_def SUPPORTED_FORMATS_def studio_world_def)
  from init_directory_errors [where pl = quiet_platform and p = "''./audio/''"
      and d = "PyInt 5" and f = "''wav''" and w = studio_world]
  have 2: "''./audio/'' \<in> dirs (snd (init quiet_platform (PyInt 5) ''./audio/'' ''wav'' studio_world))"
    by (auto simp add: n)
  from e n 1 2 show ?thesis by simp
qed

subsection \<open>The path returned\<close>

text \<open>
  Claim C3.  When \<^verbatim>\<open>start_record\<close> returns, the path returned is the output directory
  joined with \<^verbatim>\<open><integer>.<format>\<close>, where the format is the recorder's stored
  \<^verbatim>\<open>file_format\<close> and the integer is the whole number of seconds of a clock reading taken
  at or after the time of the call (the clock does not run backwards while the recording
  is awaited).
\<close>

theorem start_record_path:
  assumes "start_record pl self w = (Inr path, self', w')" and "0 \<le> wait_elapsed pl"
  shows "\<exists>t. clock w \<le> t \<and> rat_trunc (clock w) \<le> rat_trunc t
           \<and> path = path_join (output_path self)
                      (str_int (rat_trunc t) @ ''.'' @ file_format self)"
proof -
  let ?t = "clock w + wait_elapsed pl"
  from assms(2) have "clock w \<le> ?t" by simp
  moreover from this have "rat_trunc (clock w) \<le> rat_trunc ?t" by (rule rat_trunc_mono)
  moreover from start_record_Inr [OF assms(1)]
  have "path = path_join (output_path self) (str_int (rat_trunc ?t) @ ''.'' @ file_format self)"
    by blast
  ultimately show ?thesis by blast
qed

theorem start_record_path_witness:
  "fst (start_record quiet_platform
          \<lparr>duration = PyInt 2, output_path = ''./audio'', file_format = ''flac''\<rparr> studio_world)
     = Inr ''./audio/1700000005.flac''
   \<and> 0 \<le> wait_elapsed quiet_platform
   \<and> (\<exists>t. clock studio_world \<le> t \<and> rat_trunc (clock studio_world) \<le> rat_trunc t
           \<and> ''./audio/1700000005.flac'' = path_join ''./audio'' (str_int (rat_trunc t) @ ''.flac''))"
proof -
  let ?r = "\<lparr>duration = PyInt 2, output_path = ''./audio'', file_format = ''flac''\<rparr>"
  have run: "fst (start_record quiet_platform ?r studio_world) = Inr ''./audio/1700000005.flac''"
    by (simp add: start_record_quiet [where frames = 88200] rec_frames_arg_int Let_def
        str_int_studio path_join_def startswith_sep_def endswith_sep_def)
  have el: "0 \<le> wait_elapsed quiet_platform"
    by (simp add: quiet_platform_def)
  from run have "start_record quiet_platform ?r studio_world =
      (Inr ''./audio/1700000005.flac'', fst (snd (start_record quiet_platform ?r studio_world)),
       snd (snd (start_record quiet_platform ?r studio_world)))"
    using triple_eq [of "start_record quiet_platform ?r studio_world"] by simp
  from start_record_path [OF this el] run el show ?thesis by simp
qed

subsection \<open>The frames requested\<close>

text \<open>
  Claim C4.  For a recorder whose duration is the integer \<open>D\<close>, \<^verbatim>\<open>start_record\<close> makes one
  request to \<^verbatim>\<open>sd.rec\<close>: \<open>D * 44100\<close> frames, one channel, 44100 Hz, no device named (the
  default input device); and when it returns, the file at the returned path holds
  \<open>D * 44100\<close> frames on one channel at 44100 Hz.
\<close>

theorem start_record_frames:
  assumes "duration self = PyInt D"
  shows "rec_calls (snd (snd (start_record pl self w))) =
           rec_calls w @ [\<lparr>req_frames = D * 44100, req_samplerate = 44100,
                           req_channels = 1, req_device = None\<rparr>]
       \<and> (\<forall>path self' w'. start_record pl self w = (Inr path, self', w') \<longrightarrow>
             0 \<le> D \<and> files w' path =
               Some \<lparr>af_data = \<lparr>rec_frames = nat (D * 44100), rec_channels = 1\<rparr>,
                     af_samplerate = 44100\<rparr>)"
proof (intro conjI allI impI)
  show "rec_calls (snd (snd (start_record pl self w))) =
           rec_calls w @ [\<lparr>req_frames = D * 44100, req_samplerate = 44100,
                           req_channels = 1, req_device = None\<rparr>]"
    by (simp add: start_record_rec_calls rec_frames_arg_int [OF assms] SAMPLE_RATE_def)
next
  fix path self' w'
  assume "start_record pl self w = (Inr path, self', w')"
  from start_record_Inr [OF this] rec_frames_arg_int [OF assms]
  have "0 \<le> D * 44100" and "files w' path =
               Some \<lparr>af_data = \<lparr>rec_frames = nat (D * 44100), rec_channels = 1\<rparr>,
                     af_samplerate = 44100\<rparr>"
    by (auto simp add: SAMPLE_RATE_def)
  moreover from this(1) have "0 \<le> D" by simp
  ultimately show "0 \<le> D" and "files w' path =
               Some \<lparr>af_data = \<lparr>rec_frames = nat (D * 44100), rec_channels = 1\<rparr>,
                     af_samplerate = 44100\<rparr>"
    by simp_all
qed

theorem start_record_frames_witness:
  "duration \<lparr>duration = PyInt 3, output_path = ''./takes/'', file_format = ''mp3''\<rparr> = PyInt 3
   \<and> rec_calls (snd (snd (start_record quiet_platform
         \<lparr>duration = PyInt 3, output_path = ''./takes/'', file_format = ''mp3''\<rparr> studio_world)))
       = [\<lparr>req_frames = 132300, req_samplerate = 44100, req_channels = 1, req_device = None\<rparr>]
   \<and> fst (start_record quiet_platform
         \<lparr>duration = PyInt 3, output_path = ''./takes/'', file_format = ''mp3''\<rparr> studio_world)
       = Inr ''./takes/1700000005.mp3''
   \<and> files (snd (snd (start_record quiet_platform
         \<lparr>duration = PyInt 3, output_path = ''./takes/'', file_format = ''mp3''\<rparr> studio_world)))
        ''./takes/1700000005.mp3''
       = Some \<lparr>af_data = \<lparr>rec_frames = 132300, rec_channels = 1\<rparr>, af_samplerate = 44100\<rparr>"
proof -
  let ?r = "\<lparr>duration = PyInt 3, output_path = ''./takes/'', file_format = ''mp3''\<rparr>"
  have d: "duration ?r = PyInt 3" by simp
  have run: "fst (start_record quiet_platform ?r studio_world) = Inr ''./takes/1700000005.mp3''"
    by (simp add: start_record_quiet [where frames = 132300] rec_frames_arg_int Let_def
        str_int_studio path_join_def startswith_sep_def endswith_sep_def)
  then have full: "start_record quiet_platform ?r studio_world =
      (Inr ''./takes/1700000005.mp3'', fst (snd (start_record quiet_platform ?r studio_world)),
       snd (snd (start_record quiet_platform ?r studio_world)))"
    using triple_eq [of "start_record quiet_platform ?r studio_world"] by simp
  note t = start_record_frames [OF d, where pl = quiet_platform and w = studio_world]
  from t have c: "rec_calls (snd (snd (start_record quiet_platform ?r studio_world)))
       = [\<lparr>req_frames = 132300, req_samplerate = 44100, req_channels = 1, req_device = None\<rparr>]"
    by (simp add: studio_world_def)
  from t [THEN conjunct2, rule_format, OF full]
  have f: "files (snd (snd (start_record quiet_platform ?r studio_world))) ''./takes/1700000005.mp3''
       = Some \<lparr>af_data = \<lparr>rec_frames = 132300, rec_channels = 1\<rparr>, af_samplerate = 44100\<rparr>"
    by simp
  from d c run f show ?thesis by simp
qed

subsection \<open>Supported formats\<close>



subsection \<open>The format stays supported\<close>

text \<open>
  Claim C6.  A recorder returned by the constructor has a \<^verbatim>\<open>file_format\<close> of the supported
  set, and \<^verbatim>\<open>start_record\<close> keeps it so, whatever its outcome: the format is supported
  whenever a recording is started.
\<close>

theorem file_format_invariant:
  "(\<forall>self w'. init pl d p f w = (Inr self, w') \<longrightarrow> file_format self \<in> SUPPORTED_FORMATS)
   \<and> (\<forall>self v result self' v'.
         file_format self \<in> SUPPORTED_FORMATS \<and> start_record pl self v = (result, self', v')
           \<longrightarrow> file_format self' \<in> SUPPORTED_FORMATS)"
proof (intro conjI allI impI)
  fix self w'
  assume "init pl d p f w = (Inr self, w')"
  from init_Inr [OF this] show "file_format self \<in> SUPPORTED_FORMATS"
    by (simp add: validate_format_format default_supported)
next
  fix self v result self' v'
  assume a: "file_format self \<in> SUPPORTED_FORMATS \<and> start_record pl self v = (result, self', v')"
  with start_record_self [of pl self v] have "self' = self" by simp
  with a show "file_format self' \<in> SUPPORTED_FORMATS" by simp
qed

theorem file_format_invariant_witness:
  "init quiet_platform (PyInt 4) ''./mix/'' ''FLAC'' studio_world
     = (Inr \<lparr>duration = PyInt 4, output_path = ''./mix/'', file_format = ''flac''\<rparr>,
        studio_world\<lparr>dirs := {''./mix/''}\<rparr>)
   \<and> ''flac'' \<in> SUPPORTED_FORMATS
   \<and> file_format (fst (snd (start_record quiet_platform
         \<lparr>duration = PyInt 4, output_path = ''./mix/'', file_format = ''flac''\<rparr> studio_world)))
       \<in> SUPPORTED_FORMATS"
proof -
  let ?r = "\<lparr>duration = PyInt 4, output_path = ''./mix/'', file_format = ''flac''\<rparr>"
  have run: "init quiet_platform (PyInt 4) ''./mix/'' ''FLAC'' studio_world
     = (Inr ?r, studio_world\<lparr>dirs := {''./mix/''}\<rparr>)"
    by (simp add: init_quiet validate_format_def py_lower_FLAC SUPPORTED_FORMATS_def
        studio_world_def)
  note t = file_format_invariant [where pl = quiet_platform and d = "PyInt 4"
      and p = "''./mix/''" and f = "''FLAC''" and w = studio_world]
  from t [THEN conjunct1, rule_format, OF run] have a: "''flac'' \<in> SUPPORTED_FORMATS"
    by simp
  from a have "file_format ?r \<in> SUPPORTED_FORMATS
      \<and> start_record quiet_platform ?r studio_world =
         (fst (start_record quiet_platform ?r studio_world),
          fst (snd (start_record quiet_platform ?r studio_world)),
          snd (snd (start_record quiet_platform ?r studio_world)))"
    by simp
  from t [THEN conjunct2, rule_format, OF this] run a show ?thesis by simp
qed

subsection \<open>The statements at the end of the module\<close>

text \<open>
  Claim C8.  The module builds its recorder with the format \<^verbatim>\<open>wavf\<close>, which is not
  supported: the constructor prints the two lines of the substitution and the recorder's
  format is \<^verbatim>\<open>wav\<close>; when the statements run to the end, the path returned by
  \<^verbatim>\<open>start_record\<close> is \<^verbatim>\<open>./recordings/<integer>.wav\<close> and a file has been written there.
\<close>

theorem main_example:
  "py_lower ''wavf'' \<notin> SUPPORTED_FORMATS
   \<and> (\<forall>recorder w1. init pl (PyInt 5) ''./recordings/'' ''wavf'' w = (Inr recorder, w1) \<longrightarrow>
         recorder = \<lparr>duration = PyInt 5, output_path = ''./recordings/'', file_format = ''wav''\<rparr>
         \<and> (\<exists>pre. stdout w1 = stdout w @ pre @
               [''Audio file format is not supported. Accepted formats: WAV, MP3, and FLAC.'',
                ''Using default value: WAV'']))
   \<and> (\<forall>recorder recording_path w'. main pl w = (Inr (recorder, recording_path), w') \<longrightarrow>
         file_format recorder = ''wav''
         \<and> (\<exists>t. recording_path = ''./recordings/'' @ str_int t @ ''.wav'')
         \<and> (\<exists>file. files w' recording_path = Some file))"
proof (intro conjI allI impI)
  show un: "py_lower ''wavf'' \<notin> SUPPORTED_FORMATS"
    by (simp add: py_lower_wavf SUPPORTED_FORMATS_def)
  have built: "recorder = \<lparr>duration = PyInt 5, output_path = ''./recordings/'', file_format = ''wav''\<rparr>"
    if "init pl (PyInt 5) ''./recordings/'' ''wavf'' w = (Inr recorder, w1)" for recorder w1
    using init_Inr [OF that] un
    by (simp add: validate_format_unsupported DEFAULT_FORMAT_def)
  {
    fix recorder w1
    assume i: "init pl (PyInt 5) ''./recordings/'' ''wavf'' w = (Inr recorder, w1)"
    from built [OF i]
    show "recorder = \<lparr>duration = PyInt 5, output_path = ''./recordings/'', file_format = ''wav''\<rparr>" .
    from init_stdout [OF i] un
    show "\<exists>pre. stdout w1 = stdout w @ pre @
               [''Audio file format is not supported. Accepted formats: WAV, MP3, and FLAC.'',
                ''Using default value: WAV'']"
      by simp
  }
  fix recorder recording_path w'
  assume m: "main pl w = (Inr (recorder, recording_path), w')"
  then obtain r0 w1 w2 where i: "init pl (PyInt 5) ''./recordings/'' ''wavf'' w = (Inr r0, w1)"
    and s: "start_record pl r0 w1 = (Inr recording_path, recorder, w2)"
    and w': "w' = py_print (''Recording saved at: '' @ recording_path) w2"
    by (auto simp add: main_def split: prod.splits sum.splits)
  from s start_record_self [of pl r0 w1] have same: "recorder = r0" by simp
  from built [OF i] have r0: "r0 = \<lparr>duration = PyInt 5, output_path = ''./recordings/'', file_format = ''wav''\<rparr>" .
  from same r0 show "file_format recorder = ''wav''" by simp
  from start_record_Inr [OF s] r0
  have p: "recording_path = ''./recordings/'' @ str_int (rat_trunc (clock w1 + wait_elapsed pl)) @ ''.wav''"
    and f: "\<exists>file. files w2 recording_path = Some file"
    by (auto simp add: path_join_recordings)
  from p show "\<exists>t. recording_path = ''./recordings/'' @ str_int t @ ''.wav''" by blast
  from f w' show "\<exists>file. files w' recording_path = Some file" by (simp add: py_print_def)
qed

theorem main_example_witness:
  "fst (main quiet_platform studio_world)
     = Inr (\<lparr>duration = PyInt 5, output_path = ''./recordings/'', file_format = ''wav''\<rparr>,
            ''./recordings/1700000005.wav'')
   \<and> stdout (snd (main quiet_platform studio_world))
     = [''Audio file format is not supported. Accepted formats: WAV, MP3, and FLAC.'',
        ''Using default value: WAV'', ''Recording...'',
        ''Recording saved at: ./recordings/1700000005.wav'']
   \<and> (\<exists>file. files (snd (main quiet_platform studio_world)) ''./recordings/1700000005.wav''
         = Some file)"
proof -
  let ?r = "\<lparr>duration = PyInt 5, output_path = ''./recordings/'', file_format = ''wav''\<rparr>"
  let ?w1 = "studio_world\<lparr>dirs := insert ''./recordings/'' (dirs studio_world),
      stdout := stdout studio_world @
        [''Audio file format is not supported. Accepted formats: WAV, MP3, and FLAC.'',
         ''Using default value: WAV'']\<rparr>"
  have i: "init quiet_platform (PyInt 5) ''./recordings/'' ''wavf'' studio_world = (Inr ?r, ?w1)"
    by (simp add: init_quiet validate_format_def py_lower_wavf SUPPORTED_FORMATS_def
        DEFAULT_FORMAT_def py_print_def)
  have c: "clock ?w1 = clock studio_world" by simp
  have st: "stdout studio_world = []" by (simp add: studio_world_def)
  have run: "fst (main quiet_platform studio_world) = Inr (?r, ''./recordings/1700000005.wav'')"
    and out: "stdout (snd (main quiet_platform studio_world))
     = [''Audio file format is not supported. Accepted formats: WAV, MP3, and FLAC.'',
        ''Using default value: WAV'', ''Recording...'',
        ''Recording saved at: ./recordings/1700000005.wav'']"
    by (simp_all add: main_def i start_record_quiet [where frames = 220500] rec_frames_arg_int
        Let_def str_int_studio path_join_recordings py_print_def st)
  then have full: "main quiet_platform studio_world =
      (Inr (?r, ''./recordings/1700000005.wav''), snd (main quiet_platform studio_world))"
    by (metis prod.collapse)
  from main_example [where pl = quiet_platform and w = studio_world,
      THEN conjunct2, THEN conjunct2, rule_format, OF full] run out
  show ?thesis by simp
qed

subsection \<open>The duration is not validated\<close>

text \<open>
  Claim C9, as amended.  The constructor stores any duration unchanged, and a constructor
  that returns for one duration returns for every other.  \<^verbatim>\<open>start_record\<close> then requests
  \<^verbatim>\<open>int(duration * 44100)\<close> frames: \<open>i * 44100\<close> for an integer \<open>i\<close>, and for a float the
  rounded product truncated toward zero, as long as that product is finite.  When the
  product is an infinity or a NaN, \<^verbatim>\<open>int\<close> raises and \<^verbatim>\<open>start_record\<close> raises before
  anything is requested.
\<close>

theorem start_record_any_duration:
  assumes "init pl d p f w = (Inr self, w1)"
  shows "duration self = d
   \<and> (\<forall>d'. \<exists>self' w'. init pl d' p f w = (Inr self', w') \<and> duration self' = d')
   \<and> (case d of
         PyInt i \<Rightarrow>
           rec_calls (snd (snd (start_record pl self v))) =
             rec_calls v @ [\<lparr>req_frames = i * 44100, req_samplerate = 44100,
                             req_channels = 1, req_device = None\<rparr>]
       | PyFloat x \<Rightarrow>
           (case float_mul x (float_of_int SAMPLE_RATE) of
              Finite s m e \<Rightarrow>
                rec_calls (snd (snd (start_record pl self v))) =
                  rec_calls v @ [\<lparr>req_frames = rat_trunc (float_val (Finite s m e)),
                                  req_samplerate = 44100, req_channels = 1, req_device = None\<rparr>]
            | Infinity s \<Rightarrow>
                start_record pl self v =
                  (Inl (Exn OverflowError ''cannot convert float infinity to integer''), self,
                   py_print ''Recording...'' v)
            | NaN \<Rightarrow>
                start_record pl self v =
                  (Inl (Exn ValueError ''cannot convert float NaN to integer''), self,
                   py_print ''Recording...'' v)))"
proof (intro conjI allI)
  show dur: "duration self = d" by (rule init_stores_duration [OF assms])
  show "\<exists>self' w'. init pl d' p f w = (Inr self', w') \<and> duration self' = d'" for d'
    using init_duration [of pl d' p f w d] assms by simp
  show "case d of
         PyInt i \<Rightarrow>
           rec_calls (snd (snd (start_record pl self v))) =
             rec_calls v @ [\<lparr>req_frames = i * 44100, req_samplerate = 44100,
                             req_channels = 1, req_device = None\<rparr>]
       | PyFloat x \<Rightarrow>
           (case float_mul x (float_of_int SAMPLE_RATE) of
              Finite s m e \<Rightarrow>
                rec_calls (snd (snd (start_record pl self v))) =
                  rec_calls v @ [\<lparr>req_frames = rat_trunc (float_val (Finite s m e)),
                                  req_samplerate = 44100, req_channels = 1, req_device = None\<rparr>]
            | Infinity s \<Rightarrow>
                start_record pl self v =
                  (Inl (Exn OverflowError ''cannot convert float infinity to integer''), self,
                   py_print ''Recording...'' v)
            | NaN \<Rightarrow>
                start_record pl self v =
                  (Inl (Exn ValueError ''cannot convert float NaN to integer''), self,
                   py_print ''Recording...'' v))"
  proof (cases d)
    case (PyInt i)
    with dur have "rec_frames_arg self = Inr (i * 44100)" by (simp add: rec_frames_arg_int)
    with PyInt show ?thesis by (simp add: start_record_rec_calls SAMPLE_RATE_def)
  next
    case (PyFloat x)
    with dur have arg: "rec_frames_arg self = py_int (PyFloat (float_mul x (Finite False 44100 0)))"
      by (simp add: rec_frames_arg_float)
    have c: "float_of_int SAMPLE_RATE = Finite False 44100 0"
      by (simp add: SAMPLE_RATE_def float_of_int_44100)
    show ?thesis
    proof (cases "float_mul x (Finite False 44100 0)")
      case (Finite s m e)
      with arg have "rec_frames_arg self = Inr (rat_trunc (float_val (Finite s m e)))"
        by (simp only: py_int_float_trunc)
      with PyFloat Finite c show ?thesis
        by (simp add: start_record_rec_calls SAMPLE_RATE_def)
    next
      case (Infinity s)
      with arg have "rec_frames_arg self =
          Inl (Exn OverflowError ''cannot convert float infinity to integer'')"
        by simp
      from start_record_raises_early [OF this] PyFloat Infinity c show ?thesis by simp
    next
      case NaN
      with arg have "rec_frames_arg self =
          Inl (Exn ValueError ''cannot convert float NaN to integer'')"
        by simp
      from start_record_raises_early [OF this] PyFloat NaN c show ?thesis by simp
    qed
  qed
qed

text \<open>
  The claim as written promises the request for every duration.  The double \<open>2 ^ 1023\<close>
  is a finite duration that the constructor stores; its product with 44100 overflows to
  infinity, \<^verbatim>\<open>int\<close> raises \<^verbatim>\<open>OverflowError\<close> and no frames are requested.
\<close>

theorem start_record_any_duration_counterexample:
  "is_double huge_duration
   \<and> fst (init quiet_platform (PyFloat huge_duration) ''./recordings/'' ''wav'' studio_world)
       = Inr \<lparr>duration = PyFloat huge_duration, output_path = ''./recordings/'',
               file_format = ''wav''\<rparr>
   \<and> start_record quiet_platform
         \<lparr>duration = PyFloat huge_duration, output_path = ''./recordings/'',
            file_format = ''wav''\<rparr> studio_world
       = (Inl (Exn OverflowError ''cannot convert float infinity to integer''),
          \<lparr>duration = PyFloat huge_duration, output_path = ''./recordings/'',
            file_format = ''wav''\<rparr>,
          py_print ''Recording...'' studio_world)
   \<and> rec_calls (py_print ''Recording...'' studio_world) = []"
proof -
  let ?r = "\<lparr>duration = PyFloat huge_duration, output_path = ''./recordings/'',
               file_format = ''wav''\<rparr>"
  have low: "py_lower ''wav'' = ''wav''"
    by (simp add: py_lower_supported SUPPORTED_FORMATS_def)
  have built: "fst (init quiet_platform (PyFloat huge_duration) ''./recordings/'' ''wav'' studio_world)
       = Inr ?r"
    by (simp add: init_quiet validate_format_def low SUPPORTED_FORMATS_def)
  have "rec_frames_arg ?r = Inl (Exn OverflowError ''cannot convert float infinity to integer'')"
    by (simp add: rec_frames_arg_float huge_duration_product)
  from start_record_raises_early [OF this]
  have raised: "start_record quiet_platform ?r studio_world
       = (Inl (Exn OverflowError ''cannot convert float infinity to integer''), ?r,
          py_print ''Recording...'' studio_world)" .
  have "rec_calls (py_print ''Recording...'' studio_world) = []"
    by (simp add: py_print_def studio_world_def)
  with huge_duration_double built raised show ?thesis by simp
qed

theorem start_record_any_duration_witness:
  "is_double short_duration
   \<and> init quiet_platform (PyFloat short_duration) ''./clips/'' ''wav'' studio_world
       = (Inr \<lparr>duration = PyFloat short_duration, output_path = ''./clips/'',
                file_format = ''wav''\<rparr>,
          studio_world\<lparr>dirs := {''./clips/''}\<rparr>)
   \<and> float_mul short_duration (float_of_int SAMPLE_RATE) = Finite False 7030827103813632 (- 39)
   \<and> rec_calls (snd (snd (start_record quiet_platform
         \<lparr>duration = PyFloat short_duration, output_path = ''./clips/'', file_format = ''wav''\<rparr>
         studio_world)))
       = [\<lparr>req_frames = 12789, req_samplerate = 44100, req_channels = 1, req_device = None\<rparr>]"
proof -
  let ?r = "\<lparr>duration = PyFloat short_duration, output_path = ''./clips/'', file_format = ''wav''\<rparr>"
  have low: "py_lower ''wav'' = ''wav''"
    by (simp add: py_lower_supported SUPPORTED_FORMATS_def)
  have built: "init quiet_platform (PyFloat short_duration) ''./clips/'' ''wav'' studio_world
       = (Inr ?r, studio_world\<lparr>dirs := {''./clips/''}\<rparr>)"
    by (simp add: init_quiet validate_format_def low SUPPORTED_FORMATS_def studio_world_def)
  have prod: "float_mul short_duration (float_of_int SAMPLE_RATE)
      = Finite False 7030827103813632 (- 39)"
    by (simp add: SAMPLE_RATE_def float_of_int_44100 short_duration_product)
  have "py_int (PyFloat (Finite False 7030827103813632 (- 39))) = Inr 12789"
    by simp
  then have tr: "rat_trunc (float_val (Finite False 7030827103813632 (- 39))) = 12789"
    by (simp only: py_int_float_trunc sum.inject)
  have e: "rec_calls studio_world = []" by (simp add: studio_world_def)
  from start_record_any_duration [OF built, where v = studio_world]
  have "rec_calls (snd (snd (start_record quiet_platform ?r studio_world)))
       = [\<lparr>req_frames = 12789, req_samplerate = 44100, req_channels = 1, req_device = None\<rparr>]"
    by (simp add: prod tr e)
  with short_duration_double built prod show ?thesis by simp
qed

subsection \<open>The recorder is left as it was\<close>

text \<open>
  Claim C10.  After a call of \<^verbatim>\<open>start_record\<close>, whether it returns or raises, the recorder's
  \<^verbatim>\<open>duration\<close>, \<^verbatim>\<open>output_path\<close> and \<^verbatim>\<open>file_format\<close> are what they were before it.
\<close>

theorem start_record_keeps_recorder:
  assumes "start_record pl self w = (result, self', w')"
  shows "duration self' = duration self \<and> output_path self' = output_path self
       \<and> file_format self' = file_format self"
  using assms start_record_self [of pl self w] by simp

theorem start_record_keeps_recorder_witness:
  "duration (fst (snd (start_record quiet_platform
      \<lparr>duration = PyInt 7, output_path = ''./voice/'', file_format = ''wav''\<rparr> studio_world)))
     = PyInt 7
   \<and> output_path (fst (snd (start_record quiet_platform
      \<lparr>duration = PyInt 7, output_path = ''./voice/'', file_format = ''wav''\<rparr> studio_world)))
     = ''./voice/''
   \<and> file_format (fst (snd (start_record quiet_platform
      \<lparr>duration = PyInt 7, output_path = ''./voice/'', file_format = ''wav''\<rparr> studio_world)))
     = ''wav''
   \<and> fst (start_record quiet_platform
      \<lparr>duration = PyInt 7, output_path = ''./voice/'', file_format = ''wav''\<rparr> studio_world)
     = Inr ''./voice/1700000005.wav''"
proof -
  let ?r = "\<lparr>duration = PyInt 7, output_path = ''./voice/'', file_format = ''wav''\<rparr>"
  have run: "fst (start_record quiet_platform ?r studio_world) = Inr ''./voice/1700000005.wav''"
    by (simp add: start_record_quiet [where frames = 308700] rec_frames_arg_int Let_def
        str_int_studio path_join_def startswith_sep_def endswith_sep_def)
  from start_record_keeps_recorder [OF triple_eq [of "start_record quiet_platform ?r studio_world"]]
    run show ?thesis by simp
qed

end
